theory Spec2Isabelle
  imports Complex_Main "HOL-Library.Log_Nat" "HOL-Library.Sublist" "HOL-Library.Word"
begin

section \<open>Xendit payment gateway: the checkout lifecycle of \<open>xendit_settings.py\<close>\<close>

text \<open>
  The module has two entry points. \<open>XenditSettings.get_payment_url\<close> creates a
  provider invoice for a Payment Request and records an Integration Request named after it;
  the whitelisted \<open>confirm_payment\<close> is called when the provider sends the browser back,
  re-fetches the invoice and reconciles the outcome. Both are embedded here as functions
  that pass a \<open>world\<close> (the Integration Request table, the calls made to the provider,
  the notification callbacks run, the error log and the HTTP response) and return either an
  exception that leaves the function (\<open>Inl\<close>) or its value (\<open>Inr\<close>).

  Python \<open>str\<close> values are modelled as \<open>string\<close>, the UTF-8 bytes of the text,
  which is the form \<open>urllib.parse.quote\<close> works on.
\<close>

subsection \<open>Python values and exceptions\<close>

datatype pyval =
    PyNone
  | PyStr string
  | PyBytes "8 word list"
  | PyNum rat

datatype error =
    ValidationError string
  | KeyError string
  | AttributeError string
  | UnicodeDecodeError
  | UnboundLocalError string
  | DoesNotExistError string string
  | ProviderError string
  | CallbackError string

text \<open>A local variable of a Python function body: read before assignment, it raises.\<close>

datatype 'a local_var = Unbound | Bound 'a

definition getitem :: "(string \<rightharpoonup> pyval) \<Rightarrow> string \<Rightarrow> error + pyval" where
  \<comment> \<open>\<open>kwargs[k]\<close>\<close>
  "getitem d k = (case d k of None \<Rightarrow> Inl (KeyError k) | Some v \<Rightarrow> Inr v)"

definition ascii_bytes :: "8 word list \<Rightarrow> bool" where
  "ascii_bytes bs = list_all (\<lambda>b. b < 128) bs"

definition decode_ascii :: "pyval \<Rightarrow> error + pyval" where
  \<comment> \<open>\<open>v.decode("ASCII")\<close>: only \<open>bytes\<close> has the method; a byte above 127 does not decode\<close>
  "decode_ascii v =
     (case v of
        PyBytes bs \<Rightarrow>
          if ascii_bytes bs then Inr (PyStr (map (\<lambda>b. char_of (unat b)) bs))
          else Inl UnicodeDecodeError
      | _ \<Rightarrow> Inl (AttributeError ''decode''))"

subsection \<open>Binary64 arithmetic and the gateway fee\<close>

text \<open>
  The fee expression \<open>2000 + int((((2.9 / 100) * grand_total) / 1000)) * 1000\<close> is
  evaluated in Python floats: \<open>2.9\<close> is a float literal, so each division and the
  multiplication round to the nearest binary64 value, ties to even. A float is modelled as
  the rational it denotes and \<open>fl64\<close> rounds a rational to binary64 (53 significant bits,
  least exponent \<open>-1074\<close>); overflow to infinity is outside the model, which is exact below
  \<open>2 ^ 1024\<close>.
\<close>

definition pow2 :: "int \<Rightarrow> rat" where
  "pow2 e = (if 0 \<le> e then 2 ^ nat e else 1 / 2 ^ nat (- e))"

definition round_half_even :: "rat \<Rightarrow> int" where
  "round_half_even x =
     (let f = \<lfloor>x\<rfloor>; d = x - of_int f
      in if d < 1 / 2 then f
         else if 1 / 2 < d then f + 1
         else if even f then f else f + 1)"

definition binade :: "rat \<Rightarrow> int" where
  \<comment> \<open>the exponent \<open>k\<close> with \<open>2 ^ k \<le> x < 2 ^ (k + 1)\<close>, for \<open>x > 0\<close>\<close>
  "binade x =
     (let (p, q) = quotient_of x; k = bitlen p - bitlen q
      in if pow2 k \<le> x then k else k - 1)"

definition fl64 :: "rat \<Rightarrow> rat" where
  "fl64 x =
     (if x = 0 then 0
      else let a = \<bar>x\<bar>;
               e = max (binade a - 52) (- 1074);
               m = round_half_even (a / pow2 e)
           in sgn x * of_int m * pow2 e)"

definition float_div :: "rat \<Rightarrow> rat \<Rightarrow> rat" where
  "float_div x y = fl64 (x / y)"

definition float_mul :: "rat \<Rightarrow> rat \<Rightarrow> rat" where
  "float_mul x y = fl64 (x * y)"

definition py_int :: "rat \<Rightarrow> int" where
  \<comment> \<open>\<open>int(x)\<close> truncates towards zero\<close>
  "py_int x = (if 0 \<le> x then \<lfloor>x\<rfloor> else \<lceil>x\<rceil>)"

definition gateway_fee :: "rat \<Rightarrow> int" where
  \<comment> \<open>the \<open>value\<close> of the fee line in \<open>execute_set_express_checkout\<close>\<close>
  "gateway_fee grand_total =
     2000 + py_int (float_div (float_mul (float_div (fl64 (29 / 10)) 100) grand_total) 1000) * 1000"

definition spec_fee :: "rat \<Rightarrow> int" where
  \<comment> \<open>the fee as the specification words it, in exact arithmetic\<close>
  "spec_fee A = 2000 + \<lfloor>(29 / 1000 * A) / 1000\<rfloor> * 1000"

subsection \<open>URL encoding and the redirect builder\<close>

definition always_safe :: "char \<Rightarrow> bool" where
  \<comment> \<open>\<open>urllib.parse._ALWAYS_SAFE\<close>: letters, digits and \<open>_.-~\<close>\<close>
  "always_safe c =
     (let n = (of_char c :: nat)
      in (65 \<le> n \<and> n \<le> 90) \<or> (97 \<le> n \<and> n \<le> 122) \<or> (48 \<le> n \<and> n \<le> 57)
         \<or> c = CHR ''_'' \<or> c = CHR ''.'' \<or> c = CHR ''-'' \<or> c = CHR ''~'')"

definition hex_digit :: "nat \<Rightarrow> char" where
  "hex_digit n = (''0123456789ABCDEF'' ! (n mod 16))"

definition quote_char :: "char \<Rightarrow> string" where
  \<comment> \<open>one byte under \<open>quote_plus\<close>: kept, a space turned into \<open>+\<close>, or \<open>%XX\<close>\<close>
  "quote_char c =
     (if always_safe c then [c]
      else if c = CHR '' '' then ''+''
      else [CHR ''%'', hex_digit ((of_char c :: nat) div 16), hex_digit (of_char c)])"

definition quote_plus :: "string \<Rightarrow> string" where
  "quote_plus s = concat (map quote_char s)"

definition urlencode :: "string \<Rightarrow> string \<Rightarrow> string" where
  \<comment> \<open>\<open>urlencode({k: v})\<close> for a dictionary of one entry\<close>
  "urlencode k v = quote_plus k @ ''='' @ quote_plus v"

definition truthy :: "string option \<Rightarrow> string option" where
  \<comment> \<open>\<open>x or None\<close>: \<open>None\<close> and the empty string are false\<close>
  "truthy x = (case x of None \<Rightarrow> None | Some s \<Rightarrow> if s = [] then None else Some s)"

definition redirect_location :: "(string \<rightharpoonup> string) \<Rightarrow> string \<Rightarrow> string option \<Rightarrow> string" where
  \<comment> \<open>the value of \<open>redirect_url\<close> when \<open>setup_redirect\<close> reaches its last statement\<close>
  "redirect_location data redirect_url custom_redirect_to =
     (let redirect_to = truthy (data ''redirect_to'');
          redirect_message = truthy (data ''redirect_message'');
          redirect_to = (if truthy custom_redirect_to \<noteq> None then custom_redirect_to
                         else redirect_to);
          redirect_url = (case redirect_to of
                            None \<Rightarrow> redirect_url
                          | Some r \<Rightarrow> redirect_url @ ''&'' @ urlencode ''redirect_to'' r);
          redirect_url = (case redirect_message of
                            None \<Rightarrow> redirect_url
                          | Some m \<Rightarrow> redirect_url @ ''&'' @ urlencode ''redirect_message'' m)
      in redirect_url)"

subsection \<open>Documents, the provider and the world\<close>

text \<open>
  Modelled from the spec: the status of a checkout token, whose record type (the
  Integration Request doctype) is declared outside this module. A token starts
  \<open>Pending\<close>; this module only ever writes \<open>"Completed"\<close>.
\<close>

datatype status = Pending | Completed | Failed

record invoice =
  invoice_id :: string
  external_id :: string
  invoice_status :: string
  invoice_url :: string

record integration_request =
  request_status :: status
  request_service :: string
  request_data :: "string \<rightharpoonup> pyval"
  request_output :: "invoice option"
  request_fields :: "string \<rightharpoonup> string"

record order_item =
  item_code :: string
  rate :: rat
  qty :: rat

record sales_order =
  customer :: string
  order_items :: "order_item list"

record payment_request =
  reference_name :: string
  grand_total :: rat

text \<open>The documents \<open>frappe.get_doc\<close> reads; a Customer is its optional \<open>mobile_no\<close>.\<close>

record site =
  payment_request_docs :: "string \<rightharpoonup> payment_request"
  sales_order_docs :: "string \<rightharpoonup> sales_order"
  item_docs :: "string set"
  customer_docs :: "string \<rightharpoonup> string option"

record fee_line =
  fee_type :: string
  fee_value :: int

record invoice_item =
  item_name :: string
  price :: rat
  quantity :: rat

record invoice_params =
  p_external_id :: string
  p_payer_email :: pyval
  p_description :: pyval
  p_amount :: pyval
  p_customer :: "string \<rightharpoonup> pyval"
  p_should_send_email :: bool
  p_invoice_duration :: nat
  p_success_redirect_url :: string
  p_failure_redirect_url :: string
  p_currency :: string
  p_fees :: "fee_line list"
  p_items :: "invoice_item list"

datatype provider_call = InvoiceCreate invoice_params | InvoiceGet string

record world =
  integration_requests :: "string \<rightharpoonup> integration_request"
  provider_calls :: "provider_call list"
  notifications :: "(string option \<times> string option \<times> string) list"
  error_log :: "error list"
  http_response :: "string \<rightharpoonup> string"

text \<open>
  What the module calls and does not define: \<open>frappe.utils.get_url\<close>, the two calls of
  the Xendit SDK, and \<open>run_method("on_payment_authorized", "Completed")\<close> on the reference
  document, which returns the caller's own redirect target or raises. Reading the API key
  and constructing the SDK client are taken not to fail, \<open>json.loads\<close> of an SDK invoice
  is the invoice itself, and \<open>frappe.db.commit\<close> is not modelled: a write to the world is
  in effect at once.
\<close>

record collaborators =
  get_url :: "string \<Rightarrow> string"
  invoice_create :: "invoice_params \<Rightarrow> error + invoice"
  invoice_get :: "string \<Rightarrow> error + invoice"
  on_payment_authorized :: "string option \<Rightarrow> string option \<Rightarrow> error + string option"

definition api_path :: string where
  "api_path = ''/api/method/payments.payment_gateways.doctype.xendit_settings.xendit_settings''"

definition and_then :: "error + 'a \<Rightarrow> ('a \<Rightarrow> error + 'b) \<Rightarrow> error + 'b" where
  "and_then m f = (case m of Inl e \<Rightarrow> Inl e | Inr x \<Rightarrow> f x)"

definition py_format :: "string option \<Rightarrow> string" where
  \<comment> \<open>a field under \<open>str.format\<close>: \<open>None\<close> prints as \<open>None\<close>\<close>
  "py_format v = (case v of None \<Rightarrow> ''None'' | Some s \<Rightarrow> s)"

subsection \<open>Currency validation\<close>

definition supported_currencies :: "string list" where
  "supported_currencies = [''IDR'']"

definition validate_transaction_currency :: "string \<Rightarrow> world \<Rightarrow> (error + unit) \<times> world" where
  "validate_transaction_currency currency w =
     (if currency \<notin> set supported_currencies
      then (Inl (ValidationError
             (''Please select another payment method. Xendit does not support transactions in currency ''
               @ [CHR 0x27] @ currency @ [CHR 0x27])), w)
      else (Inr (), w))"

subsection \<open>Requesting a checkout\<close>

fun build_items :: "string set \<Rightarrow> order_item list \<Rightarrow> error + invoice_item list" where
  "build_items docs [] = Inr []"
| "build_items docs (it # its) =
     (if item_code it \<in> docs
      then and_then (build_items docs its)
             (\<lambda>rest. Inr (\<lparr>item_name = item_code it, price = rate it, quantity = qty it\<rparr> # rest))
      else Inl (DoesNotExistError ''Item'' (item_code it)))"

definition fetch_payment_request :: "site \<Rightarrow> (string \<rightharpoonup> pyval) \<Rightarrow> error + string \<times> payment_request" where
  \<comment> \<open>the first \<open>try\<close> of \<open>execute_set_express_checkout\<close>; the document's \<open>name\<close> is its key\<close>
  "fetch_payment_request s kwargs =
     (case kwargs ''reference_docname'' of
        Some (PyStr n) \<Rightarrow>
          (case payment_request_docs s n of
             Some pr \<Rightarrow> Inr (n, pr)
           | None \<Rightarrow> Inl (ValidationError ''Referenced doctype for checkout is not a Payment Request''))
      | _ \<Rightarrow> Inl (ValidationError ''Referenced doctype for checkout is not a Payment Request''))"

definition fetch_sales_order :: "site \<Rightarrow> payment_request \<Rightarrow> error + sales_order" where
  "fetch_sales_order s pr =
     (case sales_order_docs s (reference_name pr) of
        Some so \<Rightarrow> Inr so
      | None \<Rightarrow> Inl (ValidationError ''Doctype referenced by Payment Request is not a Sales Order''))"

definition build_customer :: "site \<Rightarrow> (string \<rightharpoonup> pyval) \<Rightarrow> sales_order \<Rightarrow> error + (string \<rightharpoonup> pyval)" where
  "build_customer s kwargs so =
     and_then (getitem kwargs ''payer_name'') (\<lambda>payer_name.
     and_then (getitem kwargs ''payer_email'') (\<lambda>payer_email.
       (case customer_docs s (customer so) of
          None \<Rightarrow> Inl (DoesNotExistError ''Customer'' (customer so))
        | Some mobile_number \<Rightarrow>
            Inr (case mobile_number of
                   None \<Rightarrow> [''given_names'' \<mapsto> payer_name, ''email'' \<mapsto> payer_email]
                 | Some m \<Rightarrow> [''given_names'' \<mapsto> payer_name, ''email'' \<mapsto> payer_email,
                               ''mobile_number'' \<mapsto> PyStr m]))))"

definition payment_confirmation_url :: "collaborators \<Rightarrow> string \<Rightarrow> string" where
  "payment_confirmation_url c token = get_url c (api_path @ ''.confirm_payment?token='' @ token)"

definition invoice_arguments ::
  "collaborators \<Rightarrow> (string \<rightharpoonup> pyval) \<Rightarrow> string \<Rightarrow> payment_request \<Rightarrow> (string \<rightharpoonup> pyval)
     \<Rightarrow> invoice_item list \<Rightarrow> error + invoice_params" where
  \<comment> \<open>the keyword arguments of \<open>Invoice.create\<close>, evaluated inside the last \<open>try\<close>\<close>
  "invoice_arguments c kwargs token pr cust its =
     and_then (getitem kwargs ''payer_email'') (\<lambda>payer_email.
     and_then (getitem kwargs ''description'') (\<lambda>description.
     and_then (getitem kwargs ''amount'') (\<lambda>amount.
       Inr \<lparr>p_external_id = token,
            p_payer_email = payer_email,
            p_description = description,
            p_amount = amount,
            p_customer = cust,
            p_should_send_email = True,
            p_invoice_duration = 600,
            p_success_redirect_url = payment_confirmation_url c token,
            p_failure_redirect_url = payment_confirmation_url c token,
            p_currency = ''IDR'',
            p_fees = [\<lparr>fee_type = ''GATEWAY'', fee_value = gateway_fee (grand_total pr)\<rparr>],
            p_items = its\<rparr>)))"

definition create_invoice :: "collaborators \<Rightarrow> invoice_params \<Rightarrow> world \<Rightarrow> (error + invoice) \<times> world" where
  \<comment> \<open>\<open>xendit_instance.Invoice.create\<close> under the bare \<open>except\<close>; the call is recorded\<close>
  "create_invoice c p w =
     (let w' = w\<lparr>provider_calls := provider_calls w @ [InvoiceCreate p]\<rparr>
      in case invoice_create c p of
           Inl e \<Rightarrow> (Inl (ValidationError ''Failed to create Xendit Invoice, please check your settings''), w')
         | Inr invc \<Rightarrow> (Inr invc, w'))"

definition execute_set_express_checkout ::
  "collaborators \<Rightarrow> site \<Rightarrow> (string \<rightharpoonup> pyval) \<Rightarrow> world \<Rightarrow> (error + invoice) \<times> world" where
  "execute_set_express_checkout c s kwargs w =
     (case fetch_payment_request s kwargs of
        Inl e \<Rightarrow> (Inl e, w)
      | Inr (token, pr) \<Rightarrow>
     (case fetch_sales_order s pr of
        Inl e \<Rightarrow> (Inl e, w)
      | Inr so \<Rightarrow>
     (case build_items (item_docs s) (order_items so) of
        Inl e \<Rightarrow> (Inl e, w)
      | Inr its \<Rightarrow>
     (case build_customer s kwargs so of
        Inl e \<Rightarrow> (Inl e, w)
      | Inr cust \<Rightarrow>
     (case invoice_arguments c kwargs token pr cust its of
        Inl e \<Rightarrow> (Inl (ValidationError ''Failed to create Xendit Invoice, please check your settings''), w)
      | Inr p \<Rightarrow> create_invoice c p w)))))"

definition reference_fields :: "(string \<rightharpoonup> pyval) \<Rightarrow> (string \<rightharpoonup> string)" where
  "reference_fields data =
     (\<lambda>k. if k = ''reference_doctype'' \<or> k = ''reference_docname''
          then (case data k of Some (PyStr v) \<Rightarrow> Some v | _ \<Rightarrow> None)
          else None)"

text \<open>
  Modelled from the spec: \<open>frappe.integrations.utils.create_request_log\<close>, which is not
  part of this module. It persists a new checkout token under the given name, status
  \<open>Pending\<close>, with the request as its data, the provider's response as its raw output and
  the reference record taken from the request; a token of the same name is overwritten.
\<close>

definition create_request_log ::
  "(string \<rightharpoonup> pyval) \<Rightarrow> string \<Rightarrow> string \<Rightarrow> invoice \<Rightarrow> world \<Rightarrow> world" where
  "create_request_log data service_name name output w =
     w\<lparr>integration_requests := (integration_requests w)(name \<mapsto>
          \<lparr>request_status = Pending,
           request_service = service_name,
           request_data = data,
           request_output = Some output,
           request_fields = reference_fields data\<rparr>)\<rparr>"

definition decode_kwarg :: "(string \<rightharpoonup> pyval) \<Rightarrow> string \<Rightarrow> error + (string \<rightharpoonup> pyval)" where
  \<comment> \<open>\<open>kwargs[k] = kwargs[k].decode("ASCII")\<close>\<close>
  "decode_kwarg kwargs k =
     and_then (getitem kwargs k) (\<lambda>v.
     and_then (decode_ascii v) (\<lambda>v'. Inr (kwargs(k \<mapsto> v'))))"

definition decode_kwargs :: "(string \<rightharpoonup> pyval) \<Rightarrow> error + (string \<rightharpoonup> pyval)" where
  "decode_kwargs kwargs =
     and_then (decode_kwarg kwargs ''title'') (\<lambda>k1.
     and_then (decode_kwarg k1 ''description'') (\<lambda>k2.
     decode_kwarg k2 ''payer_name''))"

definition get_payment_url ::
  "collaborators \<Rightarrow> site \<Rightarrow> (string \<rightharpoonup> pyval) \<Rightarrow> world \<Rightarrow> (error + string) \<times> world" where
  "get_payment_url c s kwargs w =
     (case decode_kwargs kwargs of
        Inl e \<Rightarrow> (Inl e, w)
      | Inr kwargs' \<Rightarrow>
          (case execute_set_express_checkout c s kwargs' w of
             (Inl e, w') \<Rightarrow> (Inl e, w')
           | (Inr response, w') \<Rightarrow>
               (Inr (invoice_url response),
                create_request_log (kwargs'(''is_remote_request'' \<mapsto> PyNum 1)) ''Xendit''
                  (external_id response) response w')))"

subsection \<open>Confirming a payment\<close>

text \<open>
  Modelled from the spec: \<open>update_status\<close> of the Integration Request document, which is
  not part of this module: it merges the given data into the token's data and stores the
  new status. \<open>update_integration_request_status\<close> is only called with its defaults
  \<open>error=False\<close> and \<open>doc=None\<close>, so it always reads the document by its name.
\<close>

definition update_integration_request_status ::
  "string \<Rightarrow> (string \<rightharpoonup> pyval) \<Rightarrow> status \<Rightarrow> world \<Rightarrow> (error + unit) \<times> world" where
  "update_integration_request_status token data st w =
     (case integration_requests w token of
        None \<Rightarrow> (Inl (DoesNotExistError ''Integration Request'' token), w)
      | Some doc \<Rightarrow>
          (Inr (), w\<lparr>integration_requests := (integration_requests w)(token \<mapsto>
                      doc\<lparr>request_status := st, request_data := request_data doc ++ data\<rparr>)\<rparr>))"

definition setup_redirect ::
  "collaborators \<Rightarrow> (string \<rightharpoonup> string) \<Rightarrow> string \<Rightarrow> string option \<Rightarrow> bool \<Rightarrow> world \<Rightarrow> world" where
  "setup_redirect c data redirect_url custom_redirect_to redirect w =
     (if redirect
      then w\<lparr>http_response := (http_response w)(''type'' \<mapsto> ''redirect'',
               ''location'' \<mapsto> get_url c (redirect_location data redirect_url custom_redirect_to))\<rparr>
      else w)"

definition fetch_failed :: error where
  "fetch_failed = ValidationError ''Failed to fetch Xendit Invoice, please check your settings''"

definition confirm_fetch ::
  "collaborators \<Rightarrow> string \<Rightarrow> world \<Rightarrow> (error + integration_request \<times> invoice) \<times> world" where
  \<comment> \<open>the first \<open>try\<close> of \<open>confirm_payment\<close>: any failure is re-raised by \<open>frappe.throw\<close>\<close>
  "confirm_fetch c token w =
     (case integration_requests w token of
        None \<Rightarrow> (Inl fetch_failed, w)
      | Some integration_request \<Rightarrow>
          (case request_output integration_request of
             None \<Rightarrow> (Inl fetch_failed, w)
           | Some output \<Rightarrow>
               (let w' = w\<lparr>provider_calls := provider_calls w @ [InvoiceGet (invoice_id output)]\<rparr>
                in case invoice_get c (invoice_id output) of
                     Inl e \<Rightarrow> (Inl fetch_failed, w')
                   | Inr invc \<Rightarrow> (Inr (integration_request, invc), w'))))"

definition confirm_settle ::
  "collaborators \<Rightarrow> string \<Rightarrow> integration_request \<Rightarrow> invoice \<Rightarrow> world
     \<Rightarrow> (error + string \<times> string option local_var) \<times> world" where
  \<comment> \<open>the \<open>if\<close>/\<open>else\<close> of the second \<open>try\<close>: the chosen \<open>redirect_url\<close> and the
      state of the local \<open>custom_redirect_to\<close>\<close>
  "confirm_settle c token integration_request invc w =
     (if invoice_status invc = ''PAID''
      then (case update_integration_request_status token Map.empty Completed w of
              (Inl e, w1) \<Rightarrow> (Inl e, w1)
            | (Inr u, w1) \<Rightarrow>
                (let doctype = request_fields integration_request ''reference_doctype'';
                     docname = request_fields integration_request ''reference_docname'';
                     w2 = w1\<lparr>notifications := notifications w1 @ [(doctype, docname, ''Completed'')]\<rparr>
                 in case on_payment_authorized c doctype docname of
                      Inl e \<Rightarrow> (Inl e, w2)
                    | Inr custom_redirect_to \<Rightarrow>
                        (Inr (''payment-success?doctype='' @ py_format doctype
                                @ ''&docname='' @ py_format docname,
                              Bound custom_redirect_to), w2)))
      else (Inr (''payment-failed'', Unbound), w))"

definition log_error :: "error \<Rightarrow> world \<Rightarrow> world" where
  "log_error e w = w\<lparr>error_log := error_log w @ [e]\<rparr>"

definition confirm_payment :: "collaborators \<Rightarrow> string \<Rightarrow> world \<Rightarrow> (error + unit) \<times> world" where
  "confirm_payment c token w =
     (case confirm_fetch c token w of
        (Inl e, w1) \<Rightarrow> (Inl e, w1)
      | (Inr (integration_request, invc), w1) \<Rightarrow>
          (case confirm_settle c token integration_request invc w1 of
             (Inl e, w2) \<Rightarrow> (Inr (), log_error e w2)
           | (Inr (redirect_url, Unbound), w2) \<Rightarrow>
               (Inr (), log_error (UnboundLocalError ''custom_redirect_to'') w2)
           | (Inr (redirect_url, Bound custom_redirect_to), w2) \<Rightarrow>
               (Inr (), setup_redirect c (request_fields integration_request) redirect_url
                          custom_redirect_to True w2)))"

subsection \<open>Predicates of the statements and a sample site\<close>

definition ascii_kwarg :: "(string \<rightharpoonup> pyval) \<Rightarrow> string \<Rightarrow> bool" where
  \<comment> \<open>the keyword argument is present and is a \<open>bytes\<close> value that decodes as ASCII\<close>
  "ascii_kwarg kwargs k = (case kwargs k of Some (PyBytes bs) \<Rightarrow> ascii_bytes bs | _ \<Rightarrow> False)"

definition url_safe :: "char \<Rightarrow> bool" where
  \<comment> \<open>what a percent-encoded value may contain: unreserved characters, \<open>+\<close> and \<open>%\<close>\<close>
  "url_safe c = (always_safe c \<or> c = CHR ''+'' \<or> c = CHR ''%'')"

definition sample_invoice :: "string \<Rightarrow> string \<Rightarrow> invoice" where
  "sample_invoice token st =
     \<lparr>invoice_id = ''inv-1'', external_id = token, invoice_status = st,
      invoice_url = ''https://checkout.xendit.co/web/inv-1''\<rparr>"

definition sample_collaborators :: "string \<Rightarrow> collaborators" where
  \<comment> \<open>a provider that creates invoice \<open>inv-1\<close> and reports the given status for it\<close>
  "sample_collaborators st =
     \<lparr>get_url = (\<lambda>u. ''https://shop.example/'' @ u),
      invoice_create = (\<lambda>p. Inr (sample_invoice (p_external_id p) ''PENDING'')),
      invoice_get = (\<lambda>i. if i = ''inv-1'' then Inr (sample_invoice ''PR-1'' st)
                          else Inl (ProviderError ''INVOICE_NOT_FOUND_ERROR'')),
      on_payment_authorized = (\<lambda>doctype docname. Inr None)\<rparr>"

definition failing_collaborators :: collaborators where
  \<comment> \<open>a provider that cannot be reached\<close>
  "failing_collaborators =
     \<lparr>get_url = (\<lambda>u. ''https://shop.example/'' @ u),
      invoice_create = (\<lambda>p. Inl (ProviderError ''API_VALIDATION_ERROR'')),
      invoice_get = (\<lambda>i. Inl (ProviderError ''API_VALIDATION_ERROR'')),
      on_payment_authorized = (\<lambda>doctype docname. Inr None)\<rparr>"

definition empty_world :: world where
  "empty_world =
     \<lparr>integration_requests = Map.empty, provider_calls = [], notifications = [],
      error_log = [], http_response = Map.empty\<rparr>"

definition sample_request :: "status \<Rightarrow> integration_request" where
  "sample_request st =
     \<lparr>request_status = st, request_service = ''Xendit'', request_data = Map.empty,
      request_output = Some (sample_invoice ''PR-1'' ''PENDING''),
      request_fields = [''reference_doctype'' \<mapsto> ''Payment Request'',
                        ''reference_docname'' \<mapsto> ''PR-1'']\<rparr>"

definition token_world :: "status \<Rightarrow> world" where
  \<comment> \<open>the token \<open>PR-1\<close> stored with the given status, nothing else\<close>
  "token_world st = empty_world\<lparr>integration_requests := [''PR-1'' \<mapsto> sample_request st]\<rparr>"

definition sample_site :: site where
  "sample_site =
     \<lparr>payment_request_docs = [''PR-1'' \<mapsto> \<lparr>reference_name = ''SO-1'', grand_total = 1000000\<rparr>],
      sales_order_docs = [''SO-1'' \<mapsto> \<lparr>customer = ''CUST-1'',
         order_items = [\<lparr>item_code = ''ITEM-1'', rate = 1000000, qty = 1\<rparr>]\<rparr>],
      item_docs = {''ITEM-1''},
      customer_docs = [''CUST-1'' \<mapsto> None]\<rparr>"

definition sample_kwargs :: "pyval \<Rightarrow> (string \<rightharpoonup> pyval)" where
  \<comment> \<open>a checkout request for \<open>PR-1\<close> with the given title\<close>
  "sample_kwargs title =
     [''title'' \<mapsto> title,
      ''description'' \<mapsto> PyBytes [0x50, 0x52],
      ''payer_name'' \<mapsto> PyBytes [0x41, 0x6E, 0x6E],
      ''payer_email'' \<mapsto> PyStr ''ann@example.com'',
      ''amount'' \<mapsto> PyNum 1000000,
      ''reference_doctype'' \<mapsto> PyStr ''Payment Request'',
      ''reference_docname'' \<mapsto> PyStr ''PR-1'']"

section \<open>Properties\<close>

subsection \<open>Auxiliary facts\<close>

lemma gateway_fee_example: "gateway_fee 100000 = 4000 \<and> spec_fee 100000 = 4000"
  by code_simp

lemma confirm_fetch_found:
  assumes "integration_requests w token = Some ir" "request_output ir = Some out"
    "invoice_get c (invoice_id out) = Inr invc"
  shows "confirm_fetch c token w =
           (Inr (ir, invc), w\<lparr>provider_calls := provider_calls w @ [InvoiceGet (invoice_id out)]\<rparr>)"
  using assms by (simp add: confirm_fetch_def)

lemma confirm_payment_only_fetch_escapes:
  "fst (confirm_payment c token w) = Inr () \<or> fst (confirm_payment c token w) = Inl fetch_failed"
  by (auto simp: confirm_payment_def confirm_fetch_def Let_def
      split: option.splits sum.splits prod.splits local_var.splits)

lemma quote_plus_keys:
  "quote_plus ''redirect_to'' = ''redirect_to''"
  "quote_plus ''redirect_message'' = ''redirect_message''"
  by (simp_all add: quote_plus_def quote_char_def always_safe_def)

lemma hex_digit_safe: "always_safe (hex_digit n)"
proof -
  have "list_all always_safe ''0123456789ABCDEF''"
    by code_simp
  moreover have "n mod 16 < length ''0123456789ABCDEF''"
    by simp
  ultimately show ?thesis
    unfolding hex_digit_def list_all_length by blast
qed

lemma quote_char_safe: "list_all url_safe (quote_char c)"
  by (simp add: quote_char_def url_safe_def hex_digit_safe)

lemma quote_plus_safe: "list_all url_safe (quote_plus v)"
  by (induction v) (simp_all add: quote_plus_def quote_char_safe)

lemma redirect_location_prefix: "prefix redirect_url (redirect_location data redirect_url custom)"
  by (simp add: redirect_location_def Let_def split: option.splits)

lemma redirect_location_eq:
  "redirect_location data redirect_url custom =
       redirect_url
       @ (case (if truthy custom \<noteq> None then custom else truthy (data ''redirect_to'')) of
            None \<Rightarrow> [] | Some r \<Rightarrow> ''&redirect_to='' @ quote_plus r)
       @ (case truthy (data ''redirect_message'') of
            None \<Rightarrow> [] | Some m \<Rightarrow> ''&redirect_message='' @ quote_plus m)"
  by (simp add: redirect_location_def Let_def urlencode_def quote_plus_keys split: option.splits)

lemma redirect_location_example:
  "redirect_location [''redirect_message'' \<mapsto> ''hi there''] ''thanks?id=7'' None
       = ''thanks?id=7&redirect_message=hi+there''"
  by code_simp

lemma execute_set_express_checkout_cases:
  "(\<exists>e. execute_set_express_checkout c s kwargs w = (Inl e, w))
   \<or> (\<exists>p. kwargs ''reference_docname'' = Some (PyStr (p_external_id p))
          \<and> p_success_redirect_url p = payment_confirmation_url c (p_external_id p)
          \<and> p_failure_redirect_url p = payment_confirmation_url c (p_external_id p)
          \<and> execute_set_express_checkout c s kwargs w =
              ((case invoice_create c p of
                  Inl e \<Rightarrow> Inl (ValidationError ''Failed to create Xendit Invoice, please check your settings'')
                | Inr invc \<Rightarrow> Inr invc),
               w\<lparr>provider_calls := provider_calls w @ [InvoiceCreate p]\<rparr>))"
proof (cases "fetch_payment_request s kwargs")
  case (Inl e)
  then show ?thesis by (simp add: execute_set_express_checkout_def)
next
  case (Inr tp)
  obtain token pr where tp: "tp = (token, pr)" by (cases tp)
  from Inr tp have name: "kwargs ''reference_docname'' = Some (PyStr token)"
    by (auto simp: fetch_payment_request_def split: option.splits pyval.splits)
  show ?thesis
  proof (cases "fetch_sales_order s pr")
    case (Inl e)
    with Inr tp show ?thesis by (simp add: execute_set_express_checkout_def)
  next
    case so: (Inr so)
    show ?thesis
    proof (cases "build_items (item_docs s) (order_items so)")
      case (Inl e)
      with Inr tp so show ?thesis by (simp add: execute_set_express_checkout_def)
    next
      case its: (Inr its)
      show ?thesis
      proof (cases "build_customer s kwargs so")
        case (Inl e)
        with Inr tp so its show ?thesis by (simp add: execute_set_express_checkout_def)
      next
        case cust: (Inr cust)
        show ?thesis
        proof (cases "invoice_arguments c kwargs token pr cust its")
          case (Inl e)
          with Inr tp so its cust show ?thesis by (simp add: execute_set_express_checkout_def)
        next
          case p: (Inr p)
          then have "p_external_id p = token"
            "p_success_redirect_url p = payment_confirmation_url c token"
            "p_failure_redirect_url p = payment_confirmation_url c token"
            by (auto simp: invoice_arguments_def and_then_def split: sum.splits)
          moreover have "execute_set_express_checkout c s kwargs w = create_invoice c p w"
            using Inr tp so its cust p by (simp add: execute_set_express_checkout_def)
          ultimately have "kwargs ''reference_docname'' = Some (PyStr (p_external_id p))
              \<and> p_success_redirect_url p = payment_confirmation_url c (p_external_id p)
              \<and> p_failure_redirect_url p = payment_confirmation_url c (p_external_id p)
              \<and> execute_set_express_checkout c s kwargs w =
                  ((case invoice_create c p of
                      Inl e \<Rightarrow> Inl (ValidationError ''Failed to create Xendit Invoice, please check your settings'')
                    | Inr invc \<Rightarrow> Inr invc),
                   w\<lparr>provider_calls := provider_calls w @ [InvoiceCreate p]\<rparr>)"
            using name by (simp add: create_invoice_def Let_def split: sum.splits)
          then show ?thesis by blast
        qed
      qed
    qed
  qed
qed

lemma decode_kwarg_Inr:
  "decode_kwarg kwargs k = Inr kw \<Longrightarrow> ascii_kwarg kwargs k \<and> (\<forall>j. j \<noteq> k \<longrightarrow> kw j = kwargs j)"
  by (auto simp: decode_kwarg_def and_then_def getitem_def decode_ascii_def ascii_kwarg_def
      split: option.splits sum.splits pyval.splits if_splits)

lemma decode_kwarg_ascii:
  "ascii_kwarg kwargs k \<Longrightarrow> \<exists>kw. decode_kwarg kwargs k = Inr kw"
  by (auto simp: decode_kwarg_def and_then_def getitem_def decode_ascii_def ascii_kwarg_def
      split: option.splits sum.splits pyval.splits if_splits)

lemma decode_kwarg_Inl:
  "decode_kwarg kwargs k = Inl e \<Longrightarrow>
     \<not> ascii_kwarg kwargs k \<and> (e = KeyError k \<or> e = AttributeError ''decode'' \<or> e = UnicodeDecodeError)"
  by (auto simp: decode_kwarg_def and_then_def getitem_def decode_ascii_def ascii_kwarg_def
      split: option.splits sum.splits pyval.splits if_splits)

lemma ascii_kwarg_cong: "kw j = kwargs j \<Longrightarrow> ascii_kwarg kw j = ascii_kwarg kwargs j"
  by (simp add: ascii_kwarg_def)

lemma decode_kwargs_Inr:
  assumes "decode_kwargs kwargs = Inr kw"
  shows "ascii_kwarg kwargs ''title'' \<and> ascii_kwarg kwargs ''description''
         \<and> ascii_kwarg kwargs ''payer_name''
         \<and> kw ''reference_docname'' = kwargs ''reference_docname''"
proof -
  from assms obtain k1 k2 where
    1: "decode_kwarg kwargs ''title'' = Inr k1" and
    2: "decode_kwarg k1 ''description'' = Inr k2" and
    3: "decode_kwarg k2 ''payer_name'' = Inr kw"
    by (auto simp: decode_kwargs_def and_then_def split: sum.splits)
  note a = decode_kwarg_Inr [OF 1] and b = decode_kwarg_Inr [OF 2] and d = decode_kwarg_Inr [OF 3]
  have "ascii_kwarg kwargs ''description''"
    using a b ascii_kwarg_cong [of k1 "''description''" kwargs] by simp
  moreover have "ascii_kwarg kwargs ''payer_name''"
    using a b d ascii_kwarg_cong [of k2 "''payer_name''" kwargs] by simp
  moreover have "kw ''reference_docname'' = kwargs ''reference_docname''"
    using a b d by simp
  ultimately show ?thesis using a by simp
qed

lemma decode_kwargs_Inl:
  assumes "decode_kwargs kwargs = Inl e"
  shows "\<not> (ascii_kwarg kwargs ''title'' \<and> ascii_kwarg kwargs ''description''
            \<and> ascii_kwarg kwargs ''payer_name'')
         \<and> ((\<exists>k. e = KeyError k) \<or> e = AttributeError ''decode'' \<or> e = UnicodeDecodeError)"
proof (cases "decode_kwarg kwargs ''title''")
  case (Inl e1)
  with assms have "e1 = e" by (simp add: decode_kwargs_def and_then_def)
  with decode_kwarg_Inl [OF Inl] show ?thesis by blast
next
  case 1: (Inr k1)
  note a = decode_kwarg_Inr [OF 1]
  show ?thesis
  proof (cases "decode_kwarg k1 ''description''")
    case (Inl e2)
    with assms 1 have "e2 = e" by (simp add: decode_kwargs_def and_then_def)
    with decode_kwarg_Inl [OF Inl] a ascii_kwarg_cong [of k1 "''description''" kwargs]
    show ?thesis by auto
  next
    case 2: (Inr k2)
    note b = decode_kwarg_Inr [OF 2]
    from assms 1 2 have 3: "decode_kwarg k2 ''payer_name'' = Inl e"
      by (simp add: decode_kwargs_def and_then_def)
    have "k2 ''payer_name'' = kwargs ''payer_name''"
      using a b by simp
    with decode_kwarg_Inl [OF 3] ascii_kwarg_cong [of k2 "''payer_name''" kwargs]
    show ?thesis by auto
  qed
qed

lemma get_payment_url_cases:
  "(\<exists>e. get_payment_url c s kwargs w = (Inl e, w))
   \<or> (\<exists>kw p. decode_kwargs kwargs = Inr kw
          \<and> kwargs ''reference_docname'' = Some (PyStr (p_external_id p))
          \<and> get_payment_url c s kwargs w =
              (case invoice_create c p of
                 Inl e \<Rightarrow>
                   (Inl (ValidationError ''Failed to create Xendit Invoice, please check your settings''),
                    w\<lparr>provider_calls := provider_calls w @ [InvoiceCreate p]\<rparr>)
               | Inr invc \<Rightarrow>
                   (Inr (invoice_url invc),
                    create_request_log (kw(''is_remote_request'' \<mapsto> PyNum 1)) ''Xendit''
                      (external_id invc) invc
                      (w\<lparr>provider_calls := provider_calls w @ [InvoiceCreate p]\<rparr>))))"
proof (cases "decode_kwargs kwargs")
  case (Inl e)
  then show ?thesis by (simp add: get_payment_url_def)
next
  case (Inr kw)
  note k = decode_kwargs_Inr [OF Inr]
  from execute_set_express_checkout_cases [of c s kw w] show ?thesis
  proof
    assume "\<exists>e. execute_set_express_checkout c s kw w = (Inl e, w)"
    with Inr show ?thesis by (auto simp: get_payment_url_def)
  next
    assume "\<exists>p. kw ''reference_docname'' = Some (PyStr (p_external_id p))
          \<and> p_success_redirect_url p = payment_confirmation_url c (p_external_id p)
          \<and> p_failure_redirect_url p = payment_confirmation_url c (p_external_id p)
          \<and> execute_set_express_checkout c s kw w =
              ((case invoice_create c p of
                  Inl e \<Rightarrow> Inl (ValidationError ''Failed to create Xendit Invoice, please check your settings'')
                | Inr invc \<Rightarrow> Inr invc),
               w\<lparr>provider_calls := provider_calls w @ [InvoiceCreate p]\<rparr>)"
    then obtain p where p: "kw ''reference_docname'' = Some (PyStr (p_external_id p))"
      "execute_set_express_checkout c s kw w =
              ((case invoice_create c p of
                  Inl e \<Rightarrow> Inl (ValidationError ''Failed to create Xendit Invoice, please check your settings'')
                | Inr invc \<Rightarrow> Inr invc),
               w\<lparr>provider_calls := provider_calls w @ [InvoiceCreate p]\<rparr>)"
      by blast
    have "decode_kwargs kwargs = Inr kw
          \<and> kwargs ''reference_docname'' = Some (PyStr (p_external_id p))
          \<and> get_payment_url c s kwargs w =
              (case invoice_create c p of
                 Inl e \<Rightarrow>
                   (Inl (ValidationError ''Failed to create Xendit Invoice, please check your settings''),
                    w\<lparr>provider_calls := provider_calls w @ [InvoiceCreate p]\<rparr>)
               | Inr invc \<Rightarrow>
                   (Inr (invoice_url invc),
                    create_request_log (kw(''is_remote_request'' \<mapsto> PyNum 1)) ''Xendit''
                      (external_id invc) invc
                      (w\<lparr>provider_calls := provider_calls w @ [InvoiceCreate p]\<rparr>)))"
      using Inr k p by (simp add: get_payment_url_def split: sum.splits)
    then show ?thesis by blast
  qed
qed

lemma build_items_all_found:
  "list_all (\<lambda>it. item_code it \<in> docs) its \<Longrightarrow>
   build_items docs its =
     Inr (map (\<lambda>it. \<lparr>item_name = item_code it, price = rate it, quantity = qty it\<rparr>) its)"
  by (induction its) (simp_all add: and_then_def)

lemma execute_set_express_checkout_reaches:
  assumes "kwargs ''reference_docname'' = Some (PyStr token)"
    "payment_request_docs s token = Some pr"
    "sales_order_docs s (reference_name pr) = Some so"
    "list_all (\<lambda>it. item_code it \<in> item_docs s) (order_items so)"
    "customer_docs s (customer so) = Some mobile"
    "kwargs ''payer_name'' = Some n" "kwargs ''payer_email'' = Some e"
    "kwargs ''description'' = Some d" "kwargs ''amount'' = Some a"
  shows "\<exists>p. execute_set_express_checkout c s kwargs w = create_invoice c p w
           \<and> p_external_id p = token
           \<and> p_success_redirect_url p = payment_confirmation_url c token
           \<and> p_failure_redirect_url p = payment_confirmation_url c token"
proof -
  have 1: "fetch_payment_request s kwargs = Inr (token, pr)"
    using assms by (simp add: fetch_payment_request_def)
  have 2: "fetch_sales_order s pr = Inr so"
    using assms by (simp add: fetch_sales_order_def)
  note 3 = build_items_all_found [OF assms(4)]
  obtain cust where 4: "build_customer s kwargs so = Inr cust"
    using assms by (cases mobile) (simp_all add: build_customer_def and_then_def getitem_def)
  obtain p where 5: "invoice_arguments c kwargs token pr cust
        (map (\<lambda>it. \<lparr>item_name = item_code it, price = rate it, quantity = qty it\<rparr>) (order_items so))
        = Inr p"
    and 6: "p_external_id p = token"
      "p_success_redirect_url p = payment_confirmation_url c token"
      "p_failure_redirect_url p = payment_confirmation_url c token"
    using assms by (simp add: invoice_arguments_def and_then_def getitem_def)
  have "execute_set_express_checkout c s kwargs w = create_invoice c p w"
    using 1 2 3 4 5 by (simp add: execute_set_express_checkout_def)
  with 6 show ?thesis by blast
qed

lemma confirm_fetch_cases:
  "(fst (confirm_fetch c token w) = Inl fetch_failed
      \<and> integration_requests (snd (confirm_fetch c token w)) = integration_requests w
      \<and> notifications (snd (confirm_fetch c token w)) = notifications w
      \<and> http_response (snd (confirm_fetch c token w)) = http_response w)
   \<or> (\<exists>ir out invc. integration_requests w token = Some ir \<and> request_output ir = Some out
         \<and> invoice_get c (invoice_id out) = Inr invc)"
  by (auto simp: confirm_fetch_def Let_def split: option.splits sum.splits)

lemma confirm_payment_effects:
  assumes "http_response (snd (confirm_payment c token v)) \<noteq> http_response v
           \<or> integration_requests (snd (confirm_payment c token v)) \<noteq> integration_requests v
           \<or> notifications (snd (confirm_payment c token v)) \<noteq> notifications v"
  shows "\<exists>i invc. provider_calls (snd (confirm_payment c token v)) = provider_calls v @ [InvoiceGet i]
           \<and> invoice_get c i = Inr invc \<and> invoice_status invc = ''PAID''"
proof -
  consider (failed) "fst (confirm_fetch c token v) = Inl fetch_failed"
      "integration_requests (snd (confirm_fetch c token v)) = integration_requests v"
      "notifications (snd (confirm_fetch c token v)) = notifications v"
      "http_response (snd (confirm_fetch c token v)) = http_response v"
    | (found) ir out invc where "integration_requests v token = Some ir"
      "request_output ir = Some out" "invoice_get c (invoice_id out) = Inr invc"
    using confirm_fetch_cases [of c token v] by blast
  then show ?thesis
  proof cases
    case failed
    then have "snd (confirm_payment c token v) = snd (confirm_fetch c token v)"
      by (cases "confirm_fetch c token v") (simp add: confirm_payment_def)
    with failed assms show ?thesis by simp
  next
    case found
    note f = confirm_fetch_found [OF found]
    show ?thesis
    proof (cases "invoice_status invc = ''PAID''")
      case True
      have "provider_calls (snd (confirm_payment c token v)) =
              provider_calls v @ [InvoiceGet (invoice_id out)]"
        using found True
        by (auto simp: confirm_payment_def f confirm_settle_def setup_redirect_def
            update_integration_request_status_def log_error_def Let_def split: sum.splits)
      with found True show ?thesis by blast
    next
      case False
      then have "confirm_payment c token v =
           (Inr (), v\<lparr>provider_calls := provider_calls v @ [InvoiceGet (invoice_id out)],
                      error_log := error_log v @ [UnboundLocalError ''custom_redirect_to'']\<rparr>)"
        by (simp add: confirm_payment_def f confirm_settle_def log_error_def)
      with assms show ?thesis by simp
    qed
  qed
qed

subsection \<open>Repeated confirmation of a paid invoice\<close>

text \<open>
  C1 (as amended). \<open>confirm_payment\<close> does not look at the stored status. On every call
  that finds the token and observes the provider status \<open>PAID\<close>, whatever the stored status
  (an already Completed token included), it writes the status Completed and runs the
  reference record's payment-authorized callback once more, so the callback runs once per
  call; and every such call whose callback returns sets the success redirect, the target
  \<open>payment-success?doctype=..&docname=..\<close> with the carried-forward parameters.
\<close>

theorem confirm_payment_paid_notifies_every_call:
  assumes "integration_requests w token = Some ir" "request_output ir = Some out"
    "invoice_get c (invoice_id out) = Inr invc" "invoice_status invc = ''PAID''"
  shows "notifications (snd (confirm_payment c token w)) =
           notifications w @ [(request_fields ir ''reference_doctype'',
                               request_fields ir ''reference_docname'', ''Completed'')]
         \<and> map_option request_status (integration_requests (snd (confirm_payment c token w)) token)
             = Some Completed
         \<and> (on_payment_authorized c (request_fields ir ''reference_doctype'')
               (request_fields ir ''reference_docname'') = Inr custom \<longrightarrow>
              fst (confirm_payment c token w) = Inr ()
              \<and> http_response (snd (confirm_payment c token w)) =
                  (http_response w)(''type'' \<mapsto> ''redirect'',
                     ''location'' \<mapsto> get_url c (redirect_location (request_fields ir)
                        (''payment-success?doctype='' @ py_format (request_fields ir ''reference_doctype'')
                           @ ''&docname='' @ py_format (request_fields ir ''reference_docname''))
                        custom)))"
  using assms
  by (auto simp: confirm_payment_def confirm_fetch_found confirm_settle_def setup_redirect_def
      update_integration_request_status_def log_error_def Let_def split: sum.splits)

text \<open>The amended statement at a token that is already Completed.\<close>

theorem confirm_payment_paid_notifies_every_call_witness:
  "request_status (sample_request Completed) = Completed
   \<and> notifications (token_world Completed) = []
   \<and> notifications
        (snd (confirm_payment (sample_collaborators ''PAID'') ''PR-1'' (token_world Completed)))
       = [(Some ''Payment Request'', Some ''PR-1'', ''Completed'')]
   \<and> http_response
        (snd (confirm_payment (sample_collaborators ''PAID'') ''PR-1'' (token_world Completed)))
        ''location''
       = Some ''https://shop.example/payment-success?doctype=Payment Request&docname=PR-1''"
  using confirm_payment_paid_notifies_every_call [of "token_world Completed" "''PR-1''"
      "sample_request Completed" "sample_invoice ''PR-1'' ''PENDING''" "sample_collaborators ''PAID''"
      "sample_invoice ''PR-1'' ''PAID''" None]
  by (simp add: token_world_def empty_world_def sample_request_def sample_invoice_def
      sample_collaborators_def redirect_location_def truthy_def py_format_def)

text \<open>
  C1 as stated fails: two calls in sequence for a Pending token whose invoice is \<open>PAID\<close>.
  The first call completes the token; the second runs the callback again.
\<close>

theorem confirm_payment_twice_notifies_twice:
  "map_option request_status
     (integration_requests
        (snd (confirm_payment (sample_collaborators ''PAID'') ''PR-1'' (token_world Pending)))
        ''PR-1'') = Some Completed
   \<and> notifications
        (snd (confirm_payment (sample_collaborators ''PAID'') ''PR-1''
           (snd (confirm_payment (sample_collaborators ''PAID'') ''PR-1'' (token_world Pending)))))
      = [(Some ''Payment Request'', Some ''PR-1'', ''Completed''),
         (Some ''Payment Request'', Some ''PR-1'', ''Completed'')]"
  by code_simp

subsection \<open>Failure to fetch the invoice\<close>

text \<open>
  C2 (as amended). When the token is unknown, when its stored output holds no invoice, or
  when fetching the provider invoice fails, \<open>confirm_payment\<close> raises the validation error
  \<open>Failed to fetch Xendit Invoice, please check your settings\<close> past the endpoint boundary;
  it leaves the stored tokens unmutated, logs nothing, runs no callback and sets no redirect
  response.
\<close>

theorem confirm_payment_fetch_failure:
  assumes "integration_requests w token = None
           \<or> (\<exists>ir. integration_requests w token = Some ir \<and> request_output ir = None)
           \<or> (\<exists>ir out e. integration_requests w token = Some ir \<and> request_output ir = Some out
                 \<and> invoice_get c (invoice_id out) = Inl e)"
  shows "fst (confirm_payment c token w) = Inl fetch_failed
         \<and> integration_requests (snd (confirm_payment c token w)) = integration_requests w
         \<and> error_log (snd (confirm_payment c token w)) = error_log w
         \<and> http_response (snd (confirm_payment c token w)) = http_response w
         \<and> notifications (snd (confirm_payment c token w)) = notifications w"
  using assms
  by (auto simp: confirm_payment_def confirm_fetch_def Let_def)

theorem confirm_payment_fetch_failure_witness:
  "integration_requests (token_world Pending) ''PR-404'' = None
   \<and> fst (confirm_payment failing_collaborators ''PR-404'' (token_world Pending)) = Inl fetch_failed
   \<and> error_log (snd (confirm_payment failing_collaborators ''PR-404'' (token_world Pending))) = []"
  using confirm_payment_fetch_failure [of "token_world Pending" "''PR-404''" failing_collaborators]
  by (simp add: token_world_def empty_world_def)

text \<open>
  C2 as stated fails: for an unknown token the call raises, the error log stays empty and
  no redirect location is set.
\<close>

theorem confirm_payment_unknown_token_raises:
  "confirm_payment (sample_collaborators ''PAID'') ''PR-404'' (token_world Pending) =
     (Inl (ValidationError ''Failed to fetch Xendit Invoice, please check your settings''),
      token_world Pending)
   \<and> error_log (token_world Pending) = []
   \<and> http_response (token_world Pending) ''location'' = None"
  by (simp add: confirm_payment_def confirm_fetch_def fetch_failed_def token_world_def
      empty_world_def)

subsection \<open>The gateway fee\<close>

text \<open>
  C3. The claim is that the fee is \<open>2000 + floor((0.029 * A) / 1000) * 1000\<close> for every
  amount. The code computes it in binary floating point, where \<open>2.9 / 100\<close> is below
  \<open>0.029\<close>: for a grand total of 1000000 the product is \<open>28999.999999999996\<close> and the fee
  is 30000, where the formula gives 31000.
\<close>

theorem gateway_fee_round_amount:
  "gateway_fee 1000000 = 30000 \<and> spec_fee 1000000 = 31000"
  by code_simp

subsection \<open>An invoice that is not paid\<close>

text \<open>
  C4 (as amended). For every confirmation where the fetched provider invoice status is
  anything other than \<open>PAID\<close>, the outcome is treated as not paid and not as an error
  raised to the caller: the branch selects the failure redirect target \<open>payment-failed\<close>
  and changes nothing, the call returns without raising, runs no callback, and leaves every
  stored token as it was; no status Failed is written, a Pending token stays Pending.
\<close>

theorem confirm_payment_unpaid_not_settled:
  assumes "integration_requests w token = Some ir" "request_output ir = Some out"
    "invoice_get c (invoice_id out) = Inr invc" "invoice_status invc \<noteq> ''PAID''"
  shows "confirm_settle c token ir invc w' = (Inr (''payment-failed'', Unbound), w')
         \<and> fst (confirm_payment c token w) = Inr ()
         \<and> integration_requests (snd (confirm_payment c token w)) = integration_requests w
         \<and> notifications (snd (confirm_payment c token w)) = notifications w"
  using assms
  by (simp add: confirm_payment_def confirm_fetch_found confirm_settle_def log_error_def)

theorem confirm_payment_unpaid_not_settled_witness:
  "invoice_status (sample_invoice ''PR-1'' ''EXPIRED'') \<noteq> ''PAID''
   \<and> confirm_settle (sample_collaborators ''EXPIRED'') ''PR-1'' (sample_request Pending)
         (sample_invoice ''PR-1'' ''EXPIRED'') (token_world Pending)
       = (Inr (''payment-failed'', Unbound), token_world Pending)
   \<and> integration_requests
        (snd (confirm_payment (sample_collaborators ''EXPIRED'') ''PR-1'' (token_world Pending)))
       = [''PR-1'' \<mapsto> sample_request Pending]"
  using confirm_payment_unpaid_not_settled [of "token_world Pending" "''PR-1''" "sample_request Pending"
      "sample_invoice ''PR-1'' ''PENDING''" "sample_collaborators ''EXPIRED''"
      "sample_invoice ''PR-1'' ''EXPIRED''" "token_world Pending"]
  by (simp add: token_world_def empty_world_def sample_request_def sample_invoice_def
      sample_collaborators_def)

text \<open>
  C4 as stated fails: a Pending token whose invoice is \<open>EXPIRED\<close> is still Pending after
  the call, not Failed.
\<close>

theorem confirm_payment_unpaid_stays_pending:
  "map_option request_status
     (integration_requests
        (snd (confirm_payment (sample_collaborators ''EXPIRED'') ''PR-1'' (token_world Pending)))
        ''PR-1'') = Some Pending"
  by code_simp

subsection \<open>The redirect builder\<close>

text \<open>
  C5 (as amended). \<open>setup_redirect\<close> sets a redirect response whose location is the base
  target followed by the parameters: a supplied \<open>custom_redirect_to\<close> replaces the
  \<open>redirect_to\<close> hint of the data, not the target; \<open>redirect_to\<close> and
  \<open>redirect_message\<close>, when present and not empty, are appended as \<open>&key=value\<close> with
  the value encoded by \<open>quote_plus\<close>, which leaves only unreserved characters, \<open>+\<close> and
  \<open>%\<close> and writes a space as \<open>+\<close>. The target \<open>thanks?id=7\<close> with the message
  \<open>hi there\<close> gives \<open>thanks?id=7&redirect_message=hi+there\<close>.
\<close>

theorem setup_redirect_appends_encoded:
  "http_response (setup_redirect c data redirect_url custom True w) =
     (http_response w)(''type'' \<mapsto> ''redirect'',
        ''location'' \<mapsto> get_url c (redirect_location data redirect_url custom))
   \<and> redirect_location data redirect_url custom =
       redirect_url
       @ (case (if truthy custom \<noteq> None then custom else truthy (data ''redirect_to'')) of
            None \<Rightarrow> [] | Some r \<Rightarrow> ''&redirect_to='' @ quote_plus r)
       @ (case truthy (data ''redirect_message'') of
            None \<Rightarrow> [] | Some m \<Rightarrow> ''&redirect_message='' @ quote_plus m)
   \<and> list_all url_safe (quote_plus v)
   \<and> redirect_location [''redirect_message'' \<mapsto> ''hi there''] ''thanks?id=7'' None
       = ''thanks?id=7&redirect_message=hi+there''"
proof -
  have "http_response (setup_redirect c data redirect_url custom True w) =
     (http_response w)(''type'' \<mapsto> ''redirect'',
        ''location'' \<mapsto> get_url c (redirect_location data redirect_url custom))"
    by (simp add: setup_redirect_def)
  then show ?thesis
    using redirect_location_eq [of data redirect_url custom] quote_plus_safe [of v]
      redirect_location_example
    by blast
qed

text \<open>
  C5 as stated fails: the message is encoded as \<open>hi+there\<close>, not \<open>hi%20there\<close>, and a
  custom target \<open>thanks?id=7\<close> does not replace the default target but is appended to it.
\<close>

theorem setup_redirect_message_plus:
  "http_response
     (setup_redirect (sample_collaborators ''PAID'') [''redirect_message'' \<mapsto> ''hi there'']
        ''thanks?id=7'' None True empty_world) ''location''
     = Some ''https://shop.example/thanks?id=7&redirect_message=hi+there''
   \<and> http_response
     (setup_redirect (sample_collaborators ''PAID'') [''redirect_message'' \<mapsto> ''hi there'']
        ''payment-failed'' (Some ''thanks?id=7'') True empty_world) ''location''
     = Some ''https://shop.example/payment-failed&redirect_to=thanks%3Fid%3D7&redirect_message=hi+there''"
  by code_simp

subsection \<open>Persisting the checkout token\<close>

text \<open>
  C6. \<open>get_payment_url\<close> persists a checkout token if and only if the provider's
  invoice creation succeeds. Every call either ends in an error with the stored tokens
  unchanged, or has called the provider with success and stored exactly one record: status
  Pending, service Xendit, holding the provider's response (its invoice id included) as
  output, under the external id of the response, which is the token (the name of the
  Payment Request) for a provider that returns the external id it was given. When the
  provider call is made and fails, the error \<open>Failed to create Xendit Invoice\<close> reaches
  the caller and nothing is stored; when it succeeds, the invoice URL is returned.
\<close>

theorem get_payment_url_persists_iff_created:
  assumes echo: "\<forall>p invc. invoice_create c p = Inr invc \<longrightarrow> external_id invc = p_external_id p"
  shows "((\<exists>e. fst (get_payment_url c s kwargs w) = Inl e)
            \<and> integration_requests (snd (get_payment_url c s kwargs w)) = integration_requests w
          \<or> (\<exists>p invc token.
                kwargs ''reference_docname'' = Some (PyStr token)
                \<and> provider_calls (snd (get_payment_url c s kwargs w))
                    = provider_calls w @ [InvoiceCreate p]
                \<and> invoice_create c p = Inr invc
                \<and> fst (get_payment_url c s kwargs w) = Inr (invoice_url invc)
                \<and> (\<exists>rec. integration_requests (snd (get_payment_url c s kwargs w))
                            = (integration_requests w)(token \<mapsto> rec)
                          \<and> request_status rec = Pending
                          \<and> request_output rec = Some invc
                          \<and> request_service rec = ''Xendit'')))
         \<and> (\<forall>p. provider_calls (snd (get_payment_url c s kwargs w))
                    = provider_calls w @ [InvoiceCreate p] \<longrightarrow>
                (case invoice_create c p of
                   Inl e \<Rightarrow>
                     fst (get_payment_url c s kwargs w)
                       = Inl (ValidationError ''Failed to create Xendit Invoice, please check your settings'')
                     \<and> integration_requests (snd (get_payment_url c s kwargs w))
                         = integration_requests w
                 | Inr invc \<Rightarrow> fst (get_payment_url c s kwargs w) = Inr (invoice_url invc)))"
  (is "?A \<and> ?B")
proof -
  from get_payment_url_cases [of c s kwargs w] show ?thesis
  proof
    assume "\<exists>e. get_payment_url c s kwargs w = (Inl e, w)"
    then obtain e where "get_payment_url c s kwargs w = (Inl e, w)" ..
    then show ?thesis by simp
  next
    assume "\<exists>kw p. decode_kwargs kwargs = Inr kw
          \<and> kwargs ''reference_docname'' = Some (PyStr (p_external_id p))
          \<and> get_payment_url c s kwargs w =
              (case invoice_create c p of
                 Inl e \<Rightarrow>
                   (Inl (ValidationError ''Failed to create Xendit Invoice, please check your settings''),
                    w\<lparr>provider_calls := provider_calls w @ [InvoiceCreate p]\<rparr>)
               | Inr invc \<Rightarrow>
                   (Inr (invoice_url invc),
                    create_request_log (kw(''is_remote_request'' \<mapsto> PyNum 1)) ''Xendit''
                      (external_id invc) invc
                      (w\<lparr>provider_calls := provider_calls w @ [InvoiceCreate p]\<rparr>)))"
    then obtain kw p where name: "kwargs ''reference_docname'' = Some (PyStr (p_external_id p))"
      and r: "get_payment_url c s kwargs w =
              (case invoice_create c p of
                 Inl e \<Rightarrow>
                   (Inl (ValidationError ''Failed to create Xendit Invoice, please check your settings''),
                    w\<lparr>provider_calls := provider_calls w @ [InvoiceCreate p]\<rparr>)
               | Inr invc \<Rightarrow>
                   (Inr (invoice_url invc),
                    create_request_log (kw(''is_remote_request'' \<mapsto> PyNum 1)) ''Xendit''
                      (external_id invc) invc
                      (w\<lparr>provider_calls := provider_calls w @ [InvoiceCreate p]\<rparr>)))"
      by blast
    show ?thesis
    proof (cases "invoice_create c p")
      case (Inl e)
      with r have "get_payment_url c s kwargs w =
          (Inl (ValidationError ''Failed to create Xendit Invoice, please check your settings''),
           w\<lparr>provider_calls := provider_calls w @ [InvoiceCreate p]\<rparr>)"
        by simp
      with Inl show ?thesis by simp
    next
      case (Inr invc)
      with echo have ext: "external_id invc = p_external_id p" by blast
      from r Inr ext have g: "get_payment_url c s kwargs w =
          (Inr (invoice_url invc),
           create_request_log (kw(''is_remote_request'' \<mapsto> PyNum 1)) ''Xendit''
             (p_external_id p) invc (w\<lparr>provider_calls := provider_calls w @ [InvoiceCreate p]\<rparr>))"
        by simp
      have "?B" using g Inr by (simp add: create_request_log_def)
      moreover have "\<exists>p invc token.
                kwargs ''reference_docname'' = Some (PyStr token)
                \<and> provider_calls (snd (get_payment_url c s kwargs w))
                    = provider_calls w @ [InvoiceCreate p]
                \<and> invoice_create c p = Inr invc
                \<and> fst (get_payment_url c s kwargs w) = Inr (invoice_url invc)
                \<and> (\<exists>rec. integration_requests (snd (get_payment_url c s kwargs w))
                            = (integration_requests w)(token \<mapsto> rec)
                          \<and> request_status rec = Pending
                          \<and> request_output rec = Some invc
                          \<and> request_service rec = ''Xendit'')"
      proof (intro exI conjI)
        show "kwargs ''reference_docname'' = Some (PyStr (p_external_id p))" by (rule name)
        show "provider_calls (snd (get_payment_url c s kwargs w))
                = provider_calls w @ [InvoiceCreate p]"
          using g by (simp add: create_request_log_def)
        show "invoice_create c p = Inr invc" by (rule Inr)
        show "fst (get_payment_url c s kwargs w) = Inr (invoice_url invc)"
          using g by simp
        show "integration_requests (snd (get_payment_url c s kwargs w))
                = (integration_requests w)(p_external_id p \<mapsto>
                     \<lparr>request_status = Pending, request_service = ''Xendit'',
                      request_data = kw(''is_remote_request'' \<mapsto> PyNum 1),
                      request_output = Some invc,
                      request_fields = reference_fields (kw(''is_remote_request'' \<mapsto> PyNum 1))\<rparr>)"
          using g by (simp add: create_request_log_def)
      qed simp_all
      ultimately show ?thesis by blast
    qed
  qed
qed

theorem get_payment_url_persists_iff_created_witness:
  "fst (get_payment_url (sample_collaborators ''PENDING'') sample_site
            (sample_kwargs (PyBytes [0x4F, 0x72, 0x64, 0x65, 0x72])) empty_world)
       = Inr ''https://checkout.xendit.co/web/inv-1''
   \<and> map_option request_status
       (integration_requests
          (snd (get_payment_url (sample_collaborators ''PENDING'') sample_site
                  (sample_kwargs (PyBytes [0x4F, 0x72, 0x64, 0x65, 0x72])) empty_world)) ''PR-1'')
       = Some Pending"
proof -
  let ?k = "sample_kwargs (PyBytes [0x4F, 0x72, 0x64, 0x65, 0x72])"
  let ?R = "get_payment_url (sample_collaborators ''PENDING'') sample_site ?k empty_world"
  have echo: "\<forall>p invc. invoice_create (sample_collaborators ''PENDING'') p = Inr invc
       \<longrightarrow> external_id invc = p_external_id p"
    by (auto simp: sample_collaborators_def sample_invoice_def)
  have url: "fst ?R = Inr ''https://checkout.xendit.co/web/inv-1''"
    by code_simp
  have name: "?k ''reference_docname'' = Some (PyStr ''PR-1'')"
    by (simp add: sample_kwargs_def)
  from get_payment_url_persists_iff_created [OF echo, of sample_site ?k empty_world] url name
  obtain rec where "integration_requests (snd ?R) = (integration_requests empty_world)(''PR-1'' \<mapsto> rec)"
    "request_status rec = Pending"
    by auto
  then have "map_option request_status (integration_requests (snd ?R) ''PR-1'') = Some Pending"
    by simp
  with url show ?thesis by blast
qed

subsection \<open>Currency validation\<close>

text \<open>
  C7. The allow-list is exactly \<open>IDR\<close>. For every other currency the validation fails
  with the unsupported-currency error and touches nothing, so no provider call is made;
  for \<open>IDR\<close> it succeeds.
\<close>

theorem validate_transaction_currency_allow_list:
  "supported_currencies = [''IDR'']
   \<and> validate_transaction_currency ''IDR'' w = (Inr (), w)
   \<and> (currency \<noteq> ''IDR'' \<longrightarrow>
        fst (validate_transaction_currency currency w) =
          Inl (ValidationError
            (''Please select another payment method. Xendit does not support transactions in currency ''
               @ [CHR 0x27] @ currency @ [CHR 0x27]))
        \<and> snd (validate_transaction_currency currency w) = w
        \<and> provider_calls (snd (validate_transaction_currency currency w)) = provider_calls w)"
  by (simp add: validate_transaction_currency_def supported_currencies_def)

theorem validate_transaction_currency_allow_list_witness:
  "''USD'' \<noteq> ''IDR''
   \<and> (\<exists>msg. fst (validate_transaction_currency ''USD'' empty_world) = Inl (ValidationError msg))
   \<and> provider_calls (snd (validate_transaction_currency ''USD'' empty_world)) = []"
  using validate_transaction_currency_allow_list [of empty_world "''USD''"]
  by (simp add: empty_world_def)

subsection \<open>The redirect URLs given to the provider\<close>

text \<open>
  C8. For every checkout request whose reference documents resolve and whose keyword
  arguments are present, \<open>execute_set_express_checkout\<close> calls the provider once, and the
  invoice is created with a success redirect URL and a failure redirect URL that are both
  the confirmation endpoint \<open>confirm_payment?token=\<close> followed by the token; no call of
  the checkout creates an invoice with any other pair of URLs. The URL thus carries
  nothing about the outcome, and at confirmation the outcome is asked of the provider: a
  call of \<open>confirm_payment\<close> changes the response, a stored token or the notifications
  only after it has fetched the invoice and the provider has reported \<open>PAID\<close>.
\<close>

theorem checkout_redirect_urls_coincide:
  "(kwargs ''reference_docname'' = Some (PyStr token)
      \<and> payment_request_docs s token = Some pr
      \<and> sales_order_docs s (reference_name pr) = Some so
      \<and> list_all (\<lambda>it. item_code it \<in> item_docs s) (order_items so)
      \<and> customer_docs s (customer so) = Some mobile
      \<and> kwargs ''payer_name'' = Some n \<and> kwargs ''payer_email'' = Some e
      \<and> kwargs ''description'' = Some d \<and> kwargs ''amount'' = Some a \<longrightarrow>
      (\<exists>p. provider_calls (snd (execute_set_express_checkout c s kwargs w))
              = provider_calls w @ [InvoiceCreate p]
          \<and> p_external_id p = token
          \<and> p_success_redirect_url p = get_url c (api_path @ ''.confirm_payment?token='' @ token)
          \<and> p_failure_redirect_url p = get_url c (api_path @ ''.confirm_payment?token='' @ token)
          \<and> fst (execute_set_express_checkout c s kwargs w)
              = (case invoice_create c p of
                   Inl x \<Rightarrow> Inl (ValidationError ''Failed to create Xendit Invoice, please check your settings'')
                 | Inr invc \<Rightarrow> Inr invc)))
   \<and> (provider_calls (snd (execute_set_express_checkout c s kwargs w)) = provider_calls w
     \<or> (\<exists>p. provider_calls (snd (execute_set_express_checkout c s kwargs w))
              = provider_calls w @ [InvoiceCreate p]
          \<and> kwargs ''reference_docname'' = Some (PyStr (p_external_id p))
          \<and> p_success_redirect_url p = p_failure_redirect_url p
          \<and> p_failure_redirect_url p
              = get_url c (api_path @ ''.confirm_payment?token='' @ p_external_id p)))
   \<and> (http_response (snd (confirm_payment c tok v)) \<noteq> http_response v
        \<or> integration_requests (snd (confirm_payment c tok v)) \<noteq> integration_requests v
        \<or> notifications (snd (confirm_payment c tok v)) \<noteq> notifications v \<longrightarrow>
      (\<exists>i invc. provider_calls (snd (confirm_payment c tok v)) = provider_calls v @ [InvoiceGet i]
           \<and> invoice_get c i = Inr invc \<and> invoice_status invc = ''PAID''))"
  (is "(?H \<longrightarrow> ?A) \<and> ?B \<and> ?C")
proof (intro conjI impI)
  assume h: ?H
  then obtain p where p: "execute_set_express_checkout c s kwargs w = create_invoice c p w"
    "p_external_id p = token"
    "p_success_redirect_url p = payment_confirmation_url c token"
    "p_failure_redirect_url p = payment_confirmation_url c token"
    using execute_set_express_checkout_reaches [of kwargs token s pr so mobile n e d a c w]
    by blast
  have "provider_calls (snd (execute_set_express_checkout c s kwargs w))
              = provider_calls w @ [InvoiceCreate p]
          \<and> p_external_id p = token
          \<and> p_success_redirect_url p = get_url c (api_path @ ''.confirm_payment?token='' @ token)
          \<and> p_failure_redirect_url p = get_url c (api_path @ ''.confirm_payment?token='' @ token)
          \<and> fst (execute_set_express_checkout c s kwargs w)
              = (case invoice_create c p of
                   Inl x \<Rightarrow> Inl (ValidationError ''Failed to create Xendit Invoice, please check your settings'')
                 | Inr invc \<Rightarrow> Inr invc)"
    using p by (simp add: create_invoice_def payment_confirmation_url_def Let_def split: sum.splits)
  then show ?A by blast
next
  show ?B
    using execute_set_express_checkout_cases [of c s kwargs w]
    by (auto simp: payment_confirmation_url_def)
next
  assume "http_response (snd (confirm_payment c tok v)) \<noteq> http_response v
        \<or> integration_requests (snd (confirm_payment c tok v)) \<noteq> integration_requests v
        \<or> notifications (snd (confirm_payment c tok v)) \<noteq> notifications v"
  then show "\<exists>i invc. provider_calls (snd (confirm_payment c tok v)) = provider_calls v @ [InvoiceGet i]
           \<and> invoice_get c i = Inr invc \<and> invoice_status invc = ''PAID''"
    by (rule confirm_payment_effects)
qed

theorem checkout_redirect_urls_coincide_witness:
  "(\<exists>p. provider_calls
           (snd (execute_set_express_checkout (sample_collaborators ''PAID'') sample_site
                   (sample_kwargs (PyStr ''Order'')) empty_world))
          = [InvoiceCreate p]
        \<and> p_external_id p = ''PR-1''
        \<and> p_success_redirect_url p
            = ''https://shop.example/'' @ api_path @ ''.confirm_payment?token=PR-1''
        \<and> p_failure_redirect_url p
            = ''https://shop.example/'' @ api_path @ ''.confirm_payment?token=PR-1'')
   \<and> http_response (snd (confirm_payment (sample_collaborators ''PAID'') ''PR-1'' (token_world Pending)))
     \<noteq> http_response (token_world Pending)
   \<and> (\<exists>i invc. provider_calls
          (snd (confirm_payment (sample_collaborators ''PAID'') ''PR-1'' (token_world Pending)))
          = provider_calls (token_world Pending) @ [InvoiceGet i]
        \<and> invoice_get (sample_collaborators ''PAID'') i = Inr invc \<and> invoice_status invc = ''PAID'')"
proof -
  let ?c = "sample_collaborators ''PAID''"
  let ?k = "sample_kwargs (PyStr ''Order'')"
  have hyp: "?k ''reference_docname'' = Some (PyStr ''PR-1'')
      \<and> payment_request_docs sample_site ''PR-1''
          = Some \<lparr>reference_name = ''SO-1'', grand_total = 1000000\<rparr>
      \<and> sales_order_docs sample_site (reference_name \<lparr>reference_name = ''SO-1'', grand_total = 1000000\<rparr>)
          = Some \<lparr>customer = ''CUST-1'',
                  order_items = [\<lparr>item_code = ''ITEM-1'', rate = 1000000, qty = 1\<rparr>]\<rparr>
      \<and> list_all (\<lambda>it. item_code it \<in> item_docs sample_site)
          (order_items \<lparr>customer = ''CUST-1'',
                  order_items = [\<lparr>item_code = ''ITEM-1'', rate = 1000000, qty = 1\<rparr>]\<rparr>)
      \<and> customer_docs sample_site (customer \<lparr>customer = ''CUST-1'',
                  order_items = [\<lparr>item_code = ''ITEM-1'', rate = 1000000, qty = 1\<rparr>]\<rparr>) = Some None
      \<and> ?k ''payer_name'' = Some (PyBytes [0x41, 0x6E, 0x6E])
      \<and> ?k ''payer_email'' = Some (PyStr ''ann@example.com'')
      \<and> ?k ''description'' = Some (PyBytes [0x50, 0x52])
      \<and> ?k ''amount'' = Some (PyNum 1000000)"
    by (simp add: sample_kwargs_def sample_site_def)
  have url: "get_url ?c (api_path @ ''.confirm_payment?token='' @ ''PR-1'')
      = ''https://shop.example/'' @ api_path @ ''.confirm_payment?token=PR-1''"
    by (simp add: sample_collaborators_def)
  have empty: "provider_calls empty_world = []"
    by (simp add: empty_world_def)
  have "http_response (snd (confirm_payment ?c ''PR-1'' (token_world Pending))) ''type''
        = Some ''redirect''"
    by code_simp
  moreover have "http_response (token_world Pending) ''type'' = None"
    by (simp add: token_world_def empty_world_def)
  ultimately have changed: "http_response (snd (confirm_payment ?c ''PR-1'' (token_world Pending)))
     \<noteq> http_response (token_world Pending)"
    by auto
  note t = checkout_redirect_urls_coincide [of ?k "''PR-1''" sample_site
      "\<lparr>reference_name = ''SO-1'', grand_total = 1000000\<rparr>"
      "\<lparr>customer = ''CUST-1'', order_items = [\<lparr>item_code = ''ITEM-1'', rate = 1000000, qty = 1\<rparr>]\<rparr>"
      None "PyBytes [0x41, 0x6E, 0x6E]" "PyStr ''ann@example.com''" "PyBytes [0x50, 0x52]"
      "PyNum 1000000" ?c empty_world "''PR-1''" "token_world Pending"]
  from t hyp have "\<exists>p. provider_calls (snd (execute_set_express_checkout ?c sample_site ?k empty_world))
              = provider_calls empty_world @ [InvoiceCreate p]
          \<and> p_external_id p = ''PR-1''
          \<and> p_success_redirect_url p = get_url ?c (api_path @ ''.confirm_payment?token='' @ ''PR-1'')
          \<and> p_failure_redirect_url p = get_url ?c (api_path @ ''.confirm_payment?token='' @ ''PR-1'')"
    by blast
  then have a: "\<exists>p. provider_calls (snd (execute_set_express_checkout ?c sample_site ?k empty_world))
              = [InvoiceCreate p]
          \<and> p_external_id p = ''PR-1''
          \<and> p_success_redirect_url p = ''https://shop.example/'' @ api_path @ ''.confirm_payment?token=PR-1''
          \<and> p_failure_redirect_url p = ''https://shop.example/'' @ api_path @ ''.confirm_payment?token=PR-1''"
    unfolding url empty by simp
  from t changed have b: "\<exists>i invc. provider_calls
          (snd (confirm_payment ?c ''PR-1'' (token_world Pending)))
          = provider_calls (token_world Pending) @ [InvoiceGet i]
        \<and> invoice_get ?c i = Inr invc \<and> invoice_status invc = ''PAID''"
    by blast
  from a changed b show ?thesis by blast
qed

subsection \<open>The unbound local of the failure path\<close>

text \<open>
  C9. In \<open>confirm_payment\<close>, whenever the fetched invoice status is not \<open>PAID\<close>, the local
  \<open>custom_redirect_to\<close> is read without ever having been assigned: the call to
  \<open>setup_redirect\<close> raises an unbound-variable error, which is caught and only logged, so
  the call returns normally and no redirect response is set.
\<close>

theorem confirm_payment_unpaid_unbound:
  assumes "integration_requests w token = Some ir" "request_output ir = Some out"
    "invoice_get c (invoice_id out) = Inr invc" "invoice_status invc \<noteq> ''PAID''"
  shows "confirm_payment c token w =
           (Inr (), w\<lparr>provider_calls := provider_calls w @ [InvoiceGet (invoice_id out)],
                      error_log := error_log w @ [UnboundLocalError ''custom_redirect_to'']\<rparr>)
         \<and> http_response (snd (confirm_payment c token w)) = http_response w"
  using assms
  by (simp add: confirm_payment_def confirm_fetch_found confirm_settle_def log_error_def)

theorem confirm_payment_unpaid_unbound_witness:
  "invoice_status (sample_invoice ''PR-1'' ''EXPIRED'') \<noteq> ''PAID''
   \<and> confirm_payment (sample_collaborators ''EXPIRED'') ''PR-1'' (token_world Pending) =
     (Inr (), (token_world Pending)\<lparr>provider_calls := [InvoiceGet ''inv-1''],
                error_log := [UnboundLocalError ''custom_redirect_to'']\<rparr>)
   \<and> http_response
       (snd (confirm_payment (sample_collaborators ''EXPIRED'') ''PR-1'' (token_world Pending)))
       = Map.empty"
  using confirm_payment_unpaid_unbound [of "token_world Pending" "''PR-1''" "sample_request Pending"
      "sample_invoice ''PR-1'' ''PENDING''" "sample_collaborators ''EXPIRED''"
      "sample_invoice ''PR-1'' ''EXPIRED''"]
  by (simp add: token_world_def empty_world_def sample_request_def sample_invoice_def
      sample_collaborators_def)

subsection \<open>Keyword arguments that must be ASCII bytes\<close>

text \<open>
  C10. \<open>get_payment_url\<close> decodes \<open>title\<close>, \<open>description\<close> and \<open>payer_name\<close> as
  ASCII. Whenever one of them is missing, is not a \<open>bytes\<close> value (an ordinary string,
  say) or holds a byte that is not ASCII, the call raises and leaves the world as it was:
  no provider call is made and nothing is persisted. When all three are ASCII bytes the
  decoding succeeds.
\<close>

theorem get_payment_url_requires_ascii_bytes:
  "(\<not> (ascii_kwarg kwargs ''title'' \<and> ascii_kwarg kwargs ''description''
         \<and> ascii_kwarg kwargs ''payer_name'') \<longrightarrow>
      (\<exists>e. get_payment_url c s kwargs w = (Inl e, w)
           \<and> ((\<exists>k. e = KeyError k) \<or> e = AttributeError ''decode'' \<or> e = UnicodeDecodeError)))
   \<and> (ascii_kwarg kwargs ''title'' \<and> ascii_kwarg kwargs ''description''
         \<and> ascii_kwarg kwargs ''payer_name'' \<longrightarrow> (\<exists>kw. decode_kwargs kwargs = Inr kw))"
proof (cases "decode_kwargs kwargs")
  case (Inl e)
  then have "get_payment_url c s kwargs w = (Inl e, w)"
    by (simp add: get_payment_url_def)
  with decode_kwargs_Inl [OF Inl] show ?thesis by blast
next
  case (Inr kw)
  with decode_kwargs_Inr [OF Inr] show ?thesis by blast
qed

theorem get_payment_url_requires_ascii_bytes_witness:
  "\<not> ascii_kwarg (sample_kwargs (PyStr ''Order'')) ''title''
   \<and> get_payment_url (sample_collaborators ''PENDING'') sample_site
       (sample_kwargs (PyStr ''Order'')) empty_world = (Inl (AttributeError ''decode''), empty_world)
   \<and> \<not> ascii_kwarg (sample_kwargs (PyBytes [0xC3, 0xA9])) ''title''
   \<and> get_payment_url (sample_collaborators ''PENDING'') sample_site
       (sample_kwargs (PyBytes [0xC3, 0xA9])) empty_world = (Inl UnicodeDecodeError, empty_world)"
proof -
  have 1: "\<not> ascii_kwarg (sample_kwargs (PyStr ''Order'')) ''title''"
    by (simp add: ascii_kwarg_def sample_kwargs_def)
  have 2: "\<not> ascii_kwarg (sample_kwargs (PyBytes [0xC3, 0xA9])) ''title''"
    by (simp add: ascii_kwarg_def sample_kwargs_def ascii_bytes_def)
  have 3: "decode_kwargs (sample_kwargs (PyStr ''Order'')) = Inl (AttributeError ''decode'')"
    by (simp add: decode_kwargs_def decode_kwarg_def and_then_def getitem_def decode_ascii_def
        sample_kwargs_def)
  have 4: "decode_kwargs (sample_kwargs (PyBytes [0xC3, 0xA9])) = Inl UnicodeDecodeError"
    by (simp add: decode_kwargs_def decode_kwarg_def and_then_def getitem_def decode_ascii_def
        sample_kwargs_def ascii_bytes_def)
  show ?thesis
    using 1 2 3 4
      get_payment_url_requires_ascii_bytes [of "sample_kwargs (PyStr ''Order'')"
        "sample_collaborators ''PENDING''" sample_site empty_world]
      get_payment_url_requires_ascii_bytes [of "sample_kwargs (PyBytes [0xC3, 0xA9])"
        "sample_collaborators ''PENDING''" sample_site empty_world]
    by (auto simp: get_payment_url_def)
qed

end
